theory Spec2Isabelle
  imports Main
begin

section \<open>JavaScript values received from the network\<close>

text \<open>
  \<^verbatim>\<open>response.data\<close> is typed \<^verbatim>\<open>any\<close>: it is whatever JSON the server sent. A parsed JSON
  value is a tree; the value \<^verbatim>\<open>undefined\<close> is not JSON and only arises from reading a
  property that is not there, so a JavaScript value is a \<open>json option\<close> with \<open>None\<close> for
  \<^verbatim>\<open>undefined\<close>. A number is kept as the text \<^verbatim>\<open>String(n)\<close> gives for it (so zero is
  \<open>''0''\<close>): the program only ever interpolates numbers into strings or tests them for
  truth. An object is the list of its members in the order of the text; a later member of
  the same name overrides an earlier one.
\<close>

datatype json =
    JNull
  | JBool bool
  | JNumber string
  | JString string
  | JArray "json list"
  | JObject "(string \<times> json) list"

type_synonym jsval = "json option"

datatype js_error = TypeError

text \<open>
  \<^verbatim>\<open>v.k\<close>: reading a property of \<^verbatim>\<open>undefined\<close> or \<^verbatim>\<open>null\<close> throws. The names the program
  reads (\<^verbatim>\<open>token\<close>, \<^verbatim>\<open>designRecommendations\<close>, \<^verbatim>\<open>tables\<close>, \<^verbatim>\<open>name\<close>, \<^verbatim>\<open>columns\<close>, \<^verbatim>\<open>type\<close>,
  \<^verbatim>\<open>nullable\<close>, \<^verbatim>\<open>relationships\<close>, \<^verbatim>\<open>targetTable\<close>) are inherited by no prototype, so on a
  string, number, boolean or array they read as \<^verbatim>\<open>undefined\<close>.
\<close>

fun get_prop :: "jsval \<Rightarrow> string \<Rightarrow> js_error + jsval" where
  "get_prop None k = Inl TypeError"
| "get_prop (Some JNull) k = Inl TypeError"
| "get_prop (Some (JObject kvs)) k = Inr (map_of (rev kvs) k)"
| "get_prop (Some v) k = Inr None"

text \<open>
  \<^verbatim>\<open>`${v}`\<close>: the conversion of a value to a string. An array is joined with commas, its
  \<^verbatim>\<open>null\<close> elements giving the empty string. An object is \<^verbatim>\<open>[object Object]\<close>, unless it has
  a member called \<^verbatim>\<open>toString\<close>: that member is JSON, not a function, the inherited
  \<^verbatim>\<open>valueOf\<close> returns the object itself, and the conversion throws.
\<close>

fun toString_json :: "json \<Rightarrow> js_error + string"
  and join :: "json list \<Rightarrow> js_error + string" where
  "toString_json JNull = Inr ''null''"
| "toString_json (JBool b) = Inr (if b then ''true'' else ''false'')"
| "toString_json (JNumber n) = Inr n"
| "toString_json (JString s) = Inr s"
| "toString_json (JArray xs) = join xs"
| "toString_json (JObject kvs) =
     (if ''toString'' \<in> set (map fst kvs) then Inl TypeError else Inr ''[object Object]'')"
| "join [] = Inr []"
| "join (x # xs) =
     (case (if x = JNull then Inr [] else toString_json x) of
        Inl e \<Rightarrow> Inl e
      | Inr s \<Rightarrow>
          (if xs = [] then Inr s
           else case join xs of Inl e \<Rightarrow> Inl e | Inr r \<Rightarrow> Inr (s @ '','' @ r)))"

fun toString :: "jsval \<Rightarrow> js_error + string" where
  "toString None = Inr ''undefined''"
| "toString (Some v) = toString_json v"

text \<open>The truth value of a value, as \<^verbatim>\<open>if (v)\<close> takes it.\<close>

fun truthy :: "jsval \<Rightarrow> bool" where
  "truthy None = False"
| "truthy (Some JNull) = False"
| "truthy (Some (JBool b)) = b"
| "truthy (Some (JNumber n)) = (n \<noteq> ''0'')"
| "truthy (Some (JString s)) = (s \<noteq> [])"
| "truthy (Some v) = True"

text \<open>
  \<^verbatim>\<open>v.forEach(f)\<close> with \<open>f\<close> appending to the local \<^verbatim>\<open>mermaidCode\<close>: only an array has a
  \<^verbatim>\<open>forEach\<close> that can be called; on anything else the call throws. An exception thrown by
  the callback ends the loop.
\<close>

fun forEach_list :: "(string \<Rightarrow> json \<Rightarrow> js_error + string) \<Rightarrow> json list \<Rightarrow> string \<Rightarrow> js_error + string" where
  "forEach_list f [] code = Inr code"
| "forEach_list f (x # xs) code =
     (case f code x of Inl e \<Rightarrow> Inl e | Inr code' \<Rightarrow> forEach_list f xs code')"

fun forEach :: "jsval \<Rightarrow> (string \<Rightarrow> json \<Rightarrow> js_error + string) \<Rightarrow> string \<Rightarrow> js_error + string" where
  "forEach (Some (JArray xs)) f code = forEach_list f xs code"
| "forEach v f code = Inl TypeError"

definition bind :: "js_error + 'a \<Rightarrow> ('a \<Rightarrow> js_error + 'b) \<Rightarrow> js_error + 'b" where
  "bind m f = (case m of Inl e \<Rightarrow> Inl e | Inr x \<Rightarrow> f x)"

section \<open>The diagram transformer: \<^verbatim>\<open>generateMermaidERD\<close>\<close>

text \<open>The body of the inner loop over \<^verbatim>\<open>table.columns\<close> (lines 112 to 115).\<close>

definition add_column :: "string \<Rightarrow> json \<Rightarrow> js_error + string" where
  "add_column code column =
     bind (get_prop (Some column) ''nullable'') (\<lambda>n.
     let nullable = (if truthy n then [] else []) in
     bind (get_prop (Some column) ''type'') (\<lambda>ty.
     bind (toString ty) (\<lambda>ty_s.
     bind (get_prop (Some column) ''name'') (\<lambda>nm.
     bind (toString nm) (\<lambda>nm_s.
     Inr (code @ ''        '' @ ty_s @ '' '' @ nm_s @ nullable @ ''\<newline>''))))))"

text \<open>The body of the first loop over the tables (lines 108 to 118).\<close>

definition add_table :: "string \<Rightarrow> json \<Rightarrow> js_error + string" where
  "add_table code table =
     bind (get_prop (Some table) ''name'') (\<lambda>nm.
     bind (toString nm) (\<lambda>nm_s.
     bind (get_prop (Some table) ''columns'') (\<lambda>cols.
     bind (forEach cols add_column (code @ ''    '' @ nm_s @ '' {\<newline>'')) (\<lambda>code'.
     Inr (code' @ ''    }\<newline>'')))))"

text \<open>The body of the innermost loop over \<^verbatim>\<open>table.relationships\<close> (line 124).\<close>

definition add_relationship :: "json \<Rightarrow> string \<Rightarrow> json \<Rightarrow> js_error + string" where
  "add_relationship table code relationship =
     bind (get_prop (Some relationship) ''targetTable'') (\<lambda>tgt.
     bind (toString tgt) (\<lambda>tgt_s.
     bind (get_prop (Some table) ''name'') (\<lambda>nm.
     bind (toString nm) (\<lambda>nm_s.
     Inr (code @ ''    '' @ tgt_s @ '' }o--|| '' @ nm_s @ '' : relates\<newline>'')))))"

text \<open>The body of the second loop over the tables (lines 121 to 127).\<close>

definition add_relationships :: "string \<Rightarrow> json \<Rightarrow> js_error + string" where
  "add_relationships code table =
     bind (get_prop (Some table) ''relationships'') (\<lambda>rels.
     if truthy rels then forEach rels (add_relationship table) code else Inr code)"

definition generateMermaidERD :: "jsval \<Rightarrow> js_error + string" where
  "generateMermaidERD designData =
     bind (get_prop designData ''designRecommendations'') (\<lambda>dr.
     bind (get_prop dr ''tables'') (\<lambda>tables.
     bind (forEach tables add_table ''erDiagram\<newline>'') (\<lambda>code.
     bind (get_prop designData ''designRecommendations'') (\<lambda>dr'.
     bind (get_prop dr' ''tables'') (\<lambda>tables'.
     forEach tables' add_relationships code)))))"

section \<open>Well-formed design recommendations\<close>

text \<open>
  The data model of a well-formed recommendation: every name is a string, \<^verbatim>\<open>columns\<close> is a
  sequence, \<^verbatim>\<open>relationships\<close> is a sequence or is absent.
\<close>

record column =
  column_name :: string
  column_type :: string
  column_nullable :: bool

record relationship =
  targetTable :: string

record table =
  table_name :: string
  table_columns :: "column list"
  table_relationships :: "relationship list option"

record design =
  design_tables :: "table list"

text \<open>The JSON of a well-formed recommendation, and the response body that carries it.\<close>

definition json_of_column :: "column \<Rightarrow> json" where
  "json_of_column c =
     JObject [(''name'', JString (column_name c)), (''type'', JString (column_type c)),
              (''nullable'', JBool (column_nullable c))]"

definition json_of_relationship :: "relationship \<Rightarrow> json" where
  "json_of_relationship r = JObject [(''targetTable'', JString (targetTable r))]"

definition json_of_table :: "table \<Rightarrow> json" where
  "json_of_table t =
     JObject ([(''name'', JString (table_name t)),
               (''columns'', JArray (map json_of_column (table_columns t)))] @
              (case table_relationships t of
                 None \<Rightarrow> []
               | Some rs \<Rightarrow> [(''relationships'', JArray (map json_of_relationship rs))]))"

definition json_of_design :: "design \<Rightarrow> json" where
  "json_of_design d = JObject [(''tables'', JArray (map json_of_table (design_tables d)))]"

definition response_of_design :: "design \<Rightarrow> jsval" where
  "response_of_design d = Some (JObject [(''designRecommendations'', json_of_design d)])"

text \<open>The diagram as the specification describes it, piece by piece.\<close>

definition column_line :: "column \<Rightarrow> string" where
  "column_line c = ''        '' @ column_type c @ '' '' @ column_name c @ ''\<newline>''"

definition entity_block :: "table \<Rightarrow> string" where
  "entity_block t =
     ''    '' @ table_name t @ '' {\<newline>'' @ concat (map column_line (table_columns t)) @ ''    }\<newline>''"

definition relationship_line :: "table \<Rightarrow> relationship \<Rightarrow> string" where
  "relationship_line t r =
     ''    '' @ targetTable r @ '' }o--|| '' @ table_name t @ '' : relates\<newline>''"

definition relationship_lines :: "table \<Rightarrow> string" where
  "relationship_lines t =
     (case table_relationships t of
        None \<Rightarrow> []
      | Some rs \<Rightarrow> concat (map (relationship_line t) rs))"

section \<open>The state of \<^verbatim>\<open>DatabaseDesignApp\<close>\<close>

text \<open>
  One field for each \<^verbatim>\<open>useState\<close> and each \<^verbatim>\<open>useRef\<close> of the component. A ref is \<open>None\<close>
  while its input element is not mounted (\<^verbatim>\<open>ref.current\<close> is \<^verbatim>\<open>null\<close>) and otherwise holds
  the element's \<^verbatim>\<open>value\<close>. \<^verbatim>\<open>token\<close> is declared a string, but it is assigned
  \<^verbatim>\<open>response.data.token\<close>, which is whatever the server sent. \<^verbatim>\<open>designResult\<close> is \<open>None\<close> for
  \<^verbatim>\<open>null\<close> and \<open>Some v\<close> for the text \<^verbatim>\<open>JSON.stringify(v, null, 2)\<close>, represented by the value
  \<open>v\<close> it was printed from; \<^verbatim>\<open>JSON.stringify(undefined)\<close> is \<^verbatim>\<open>undefined\<close>.
\<close>

record app_state =
  isLoggedIn :: bool
  token :: jsval
  error :: "string option"
  isLoggingIn :: bool
  isGeneratingDesign :: bool
  usernameRef :: "string option"
  passwordRef :: "string option"
  sourceTypeRef :: "string option"
  connectionStringRef :: "string option"
  designResult :: "jsval option"
  databaseSchema :: "string option"

text \<open>
  The state after the first render: the initial values of the hooks, the login form
  mounted with empty fields.
\<close>

definition init_state :: app_state where
  "init_state =
     \<lparr>isLoggedIn = False, token = Some (JString []), error = None, isLoggingIn = False,
      isGeneratingDesign = False, usernameRef = Some [], passwordRef = Some [],
      sourceTypeRef = None, connectionStringRef = None, designResult = None,
      databaseSchema = None\<rparr>"

text \<open>\<^verbatim>\<open>ref.current?.value || ''\<close>\<close>

definition input_value :: "string option \<Rightarrow> string" where
  "input_value r = (case r of None \<Rightarrow> [] | Some v \<Rightarrow> v)"

text \<open>
  What \<^verbatim>\<open>await axios.post(...)\<close> comes back with: the promise is rejected (no answer, or a
  status that is not 2xx), or resolved with \<^verbatim>\<open>response.data\<close>.
\<close>

datatype response = Rejected | Resolved jsval

section \<open>\<^verbatim>\<open>handleLogin\<close>\<close>

record login_request =
  username :: string
  password :: string

text \<open>Up to the \<^verbatim>\<open>await\<close>: the state updates and the request that is posted.\<close>

definition handleLogin_start :: "app_state \<Rightarrow> app_state \<times> login_request" where
  "handleLogin_start s =
     (s\<lparr>error := None, isLoggingIn := True\<rparr>,
      \<lparr>username = input_value (usernameRef s), password = input_value (passwordRef s)\<rparr>)"

definition login_failed_message :: string where
  "login_failed_message = ''Login failed. Please check your credentials.''"

text \<open>
  From the \<^verbatim>\<open>await\<close> on. \<^verbatim>\<open>response.data.token\<close> throws inside the \<^verbatim>\<open>try\<close> when the body is
  \<^verbatim>\<open>null\<close>, before \<^verbatim>\<open>setToken\<close> is reached.
\<close>

definition handleLogin_catch :: "app_state \<Rightarrow> app_state" where
  "handleLogin_catch s = s\<lparr>error := Some login_failed_message, isLoggedIn := False\<rparr>"

definition handleLogin_finish :: "response \<Rightarrow> app_state \<Rightarrow> app_state" where
  "handleLogin_finish r s =
     (case r of
        Rejected \<Rightarrow> handleLogin_catch s
      | Resolved data \<Rightarrow>
          (case get_prop data ''token'' of
             Inl e \<Rightarrow> handleLogin_catch s
           | Inr t \<Rightarrow> s\<lparr>token := t, isLoggedIn := True\<rparr>))
     \<lparr>isLoggingIn := False\<rparr>"

section \<open>\<^verbatim>\<open>handleGenerateDesign\<close>\<close>

record source_config =
  path :: "string option"
  url :: "string option"

record design_request =
  sourceType :: string
  connectionString :: string
  sourceConfig :: source_config
  authorization :: string

definition generate_failed_message :: string where
  "generate_failed_message = ''Failed to generate database design.''"

definition handleGenerateDesign_catch :: "app_state \<Rightarrow> app_state" where
  "handleGenerateDesign_catch s = s\<lparr>error := Some generate_failed_message\<rparr>"

text \<open>
  Up to the \<^verbatim>\<open>await\<close>. The arguments of \<^verbatim>\<open>axios.post\<close> are evaluated inside the \<^verbatim>\<open>try\<close>: when
  the token cannot be converted to a string the template throws, nothing is posted, and the
  \<^verbatim>\<open>catch\<close> and \<^verbatim>\<open>finally\<close> blocks run at once. There is no other way out before the post.
\<close>

definition handleGenerateDesign_start :: "app_state \<Rightarrow> app_state \<times> design_request option" where
  "handleGenerateDesign_start s =
     (let sourceType = input_value (sourceTypeRef s);
          connectionString = input_value (connectionStringRef s);
          s1 = s\<lparr>error := None, isGeneratingDesign := True\<rparr>
      in case toString (token s) of
           Inl e \<Rightarrow> ((handleGenerateDesign_catch s1)\<lparr>isGeneratingDesign := False\<rparr>, None)
         | Inr tok \<Rightarrow>
             (s1, Some \<lparr>sourceType = sourceType, connectionString = connectionString,
                        sourceConfig =
                          \<lparr>path = (if sourceType = ''csv'' then Some connectionString else None),
                           url = (if sourceType = ''api'' then Some connectionString else None)\<rparr>,
                        authorization = ''Bearer '' @ tok\<rparr>))"

text \<open>
  From the \<^verbatim>\<open>await\<close> on: \<^verbatim>\<open>setDesignResult\<close> comes before \<^verbatim>\<open>generateMermaidERD\<close> is called,
  and stays done when that call throws.
\<close>

definition handleGenerateDesign_finish :: "response \<Rightarrow> app_state \<Rightarrow> app_state" where
  "handleGenerateDesign_finish r s =
     (case r of
        Rejected \<Rightarrow> handleGenerateDesign_catch s
      | Resolved designData \<Rightarrow>
          (let s1 = s\<lparr>designResult := Some designData\<rparr>
           in case generateMermaidERD designData of
                Inl e \<Rightarrow> handleGenerateDesign_catch s1
              | Inr mermaidSchema \<Rightarrow> s1\<lparr>databaseSchema := Some mermaidSchema\<rparr>))
     \<lparr>isGeneratingDesign := False\<rparr>"

text \<open>
  The request body as axios sends it: the object is serialised with \<^verbatim>\<open>JSON.stringify\<close>, which
  leaves out a property whose value is \<^verbatim>\<open>undefined\<close>.
\<close>

definition optional_member :: "string \<Rightarrow> string option \<Rightarrow> (string \<times> json) list" where
  "optional_member k v = (case v of None \<Rightarrow> [] | Some x \<Rightarrow> [(k, JString x)])"

definition body_json :: "design_request \<Rightarrow> json" where
  "body_json req =
     JObject [(''sourceType'', JString (sourceType req)),
              (''connectionString'', JString (connectionString req)),
              (''sourceConfig'',
                 JObject (optional_member ''path'' (path (sourceConfig req)) @
                          optional_member ''url'' (url (sourceConfig req))))]"

section \<open>\<^verbatim>\<open>handleLogout\<close>\<close>

text \<open>\<^verbatim>\<open>if (ref.current) ref.current.value = ''\<close>\<close>

definition clear_input :: "string option \<Rightarrow> string option" where
  "clear_input r = (case r of None \<Rightarrow> None | Some v \<Rightarrow> Some [])"

definition handleLogout :: "app_state \<Rightarrow> app_state" where
  "handleLogout s =
     s\<lparr>isLoggedIn := False, token := Some (JString []), designResult := None,
       databaseSchema := None,
       usernameRef := clear_input (usernameRef s), passwordRef := clear_input (passwordRef s),
       sourceTypeRef := clear_input (sourceTypeRef s),
       connectionStringRef := clear_input (connectionStringRef s)\<rparr>"

section \<open>What is rendered\<close>

text \<open>
  The part of the markup that depends on the state. \<^verbatim>\<open>{error && <p>{error}</p>}\<close> shows the
  message when it is neither \<^verbatim>\<open>null\<close> nor empty. The login form has its fields and its
  button disabled while \<^verbatim>\<open>isLoggingIn\<close>; the design interface has its fields, the generate
  button and the logout button disabled while \<^verbatim>\<open>isGeneratingDesign\<close>, and shows the diagram
  when \<^verbatim>\<open>designResult && !isGeneratingDesign\<close> and \<^verbatim>\<open>databaseSchema\<close> hold.
\<close>

definition shown :: "string option \<Rightarrow> string option" where
  "shown m = (case m of None \<Rightarrow> None | Some t \<Rightarrow> if t = [] then None else Some t)"

datatype screen =
    LoginForm (error_shown: "string option") (controls_disabled: bool)
  | DesignInterface (error_shown: "string option") (controls_disabled: bool)
      (diagram_shown: "string option")

definition render :: "app_state \<Rightarrow> screen" where
  "render s =
     (if \<not> isLoggedIn s then LoginForm (shown (error s)) (isLoggingIn s)
      else DesignInterface (shown (error s)) (isGeneratingDesign s)
             (if (case designResult s of Some (Some v) \<Rightarrow> True | _ \<Rightarrow> False) \<and>
                 \<not> isGeneratingDesign s
              then shown (databaseSchema s) else None))"

text \<open>The error paragraphs on the screen.\<close>

definition error_messages :: "screen \<Rightarrow> string list" where
  "error_messages v = (case error_shown v of None \<Rightarrow> [] | Some m \<Rightarrow> [m])"

section \<open>The application driven through its controls\<close>

text \<open>
  The application together with its requests in flight and the log of every call made to
  the network. Several generation requests can be in flight at once; an answer is handled
  in the same way whichever of them it answers, so the list only has to count them.

  The two views are the children of \<^verbatim>\<open><AnimatePresence mode="wait">\<close> (line 294): when
  \<^verbatim>\<open>isLoggedIn\<close> changes, the view that leaves stays on the screen, as it was last rendered,
  until its exit has completed, and the view that enters waits for it. \<open>exiting\<close> is the
  state from which a design interface that is leaving was last rendered; its buttons keep
  the handlers of that render. A login form that leaves was last rendered with
  \<^verbatim>\<open>isLoggingIn\<close> set, so all its controls are disabled and nothing can be done with it: its
  exit is left out.
\<close>

datatype net_call = LoginCall login_request | GenerateCall design_request

record world =
  app :: app_state
  exiting :: "app_state option"
  login_in_flight :: "login_request option"
  generate_in_flight :: "design_request list"
  network :: "net_call list"

definition init_world :: world where
  "init_world =
     \<lparr>app = init_state, exiting = None, login_in_flight = None, generate_in_flight = [],
      network = []\<rparr>"

text \<open>
  What can happen: the user submits the login form with the fields filled in (both are
  \<^verbatim>\<open>required\<close>), clicks the generate button with a source type chosen among the options of
  the \<^verbatim>\<open>select\<close> and a connection string typed, or clicks the logout button; the answer to
  a request in flight arrives; the exit of a design interface that is leaving completes. An
  event carries what the fields of the mounted form hold at that moment; the fields of the
  other form are not mounted.
\<close>

datatype event =
    SubmitLogin string string
  | LoginResponse response
  | ClickGenerate string string
  | GenerateResponse response
  | ClickLogout string string
  | ExitComplete

definition source_type_options :: "string list" where
  "source_type_options = [[], ''csv'', ''api'', ''prompt'', ''database'']"

definition login_mounted :: "string \<Rightarrow> string \<Rightarrow> app_state \<Rightarrow> app_state" where
  "login_mounted u p s =
     s\<lparr>usernameRef := Some u, passwordRef := Some p, sourceTypeRef := None,
       connectionStringRef := None\<rparr>"

definition design_mounted :: "string \<Rightarrow> string \<Rightarrow> app_state \<Rightarrow> app_state" where
  "design_mounted st cs s =
     s\<lparr>usernameRef := None, passwordRef := None, sourceTypeRef := Some st,
       connectionStringRef := Some cs\<rparr>"

text \<open>A control can be used when its form is the one rendered and it is not disabled.\<close>

definition login_form_enabled :: "app_state \<Rightarrow> bool" where
  "login_form_enabled s =
     (case render s of LoginForm e d \<Rightarrow> \<not> d | DesignInterface e d g \<Rightarrow> False)"

definition design_buttons_enabled :: "app_state \<Rightarrow> bool" where
  "design_buttons_enabled s =
     (case render s of LoginForm e d \<Rightarrow> False | DesignInterface e d g \<Rightarrow> \<not> d)"

text \<open>
  The state from which the design interface on the screen was rendered, if there is one:
  the one that is leaving, or else the current one while \<^verbatim>\<open>isLoggedIn\<close> holds.
\<close>

definition design_view :: "world \<Rightarrow> app_state option" where
  "design_view w =
     (case exiting w of
        Some c \<Rightarrow> Some c
      | None \<Rightarrow> if isLoggedIn (app w) then Some (app w) else None)"

text \<open>
  \<^verbatim>\<open>handleGenerateDesign\<close> is memoised on \<^verbatim>\<open>token\<close> (\<^verbatim>\<open>useCallback(..., [token])\<close>): the handler
  that a view holds reads the token of the render the view comes from, here the state \<open>c\<close>;
  the fields are read through the refs and the state updates apply to the current state
  \<open>s\<close>. The handler never writes the token.
\<close>

definition handleGenerateDesign_from ::
  "app_state \<Rightarrow> app_state \<Rightarrow> app_state \<times> design_request option" where
  "handleGenerateDesign_from c s =
     (case handleGenerateDesign_start (s\<lparr>token := token c\<rparr>) of
        (s', req) \<Rightarrow> (s'\<lparr>token := token s\<rparr>, req))"

fun ui_step :: "world \<Rightarrow> event \<Rightarrow> world option" where
  "ui_step w (SubmitLogin u p) =
     (if exiting w = None \<and> login_form_enabled (app w) \<and> u \<noteq> [] \<and> p \<noteq> [] then
        (case handleLogin_start (login_mounted u p (app w)) of
           (s', req) \<Rightarrow>
             Some (w\<lparr>app := s', login_in_flight := Some req,
                     network := network w @ [LoginCall req]\<rparr>))
      else None)"
| "ui_step w (LoginResponse r) =
     (case login_in_flight w of
        None \<Rightarrow> None
      | Some req \<Rightarrow> Some (w\<lparr>app := handleLogin_finish r (app w), login_in_flight := None\<rparr>))"
| "ui_step w (ClickGenerate st cs) =
     (case design_view w of
        None \<Rightarrow> None
      | Some c \<Rightarrow>
          if design_buttons_enabled c \<and> st \<in> set source_type_options then
            (case handleGenerateDesign_from c (design_mounted st cs (app w)) of
               (s', None) \<Rightarrow> Some (w\<lparr>app := s'\<rparr>)
             | (s', Some req) \<Rightarrow>
                 Some (w\<lparr>app := s', generate_in_flight := generate_in_flight w @ [req],
                         network := network w @ [GenerateCall req]\<rparr>))
          else None)"
| "ui_step w (GenerateResponse r) =
     (case generate_in_flight w of
        [] \<Rightarrow> None
      | req # reqs \<Rightarrow>
          Some (w\<lparr>app := handleGenerateDesign_finish r (app w), generate_in_flight := reqs\<rparr>))"
| "ui_step w (ClickLogout st cs) =
     (case design_view w of
        None \<Rightarrow> None
      | Some c \<Rightarrow>
          if design_buttons_enabled c then
            Some (w\<lparr>app := handleLogout (design_mounted st cs (app w)), exiting := Some c\<rparr>)
          else None)"
| "ui_step w ExitComplete =
     (case exiting w of None \<Rightarrow> None | Some c \<Rightarrow> Some (w\<lparr>exiting := None\<rparr>))"

fun run :: "world \<Rightarrow> event list \<Rightarrow> world option" where
  "run w [] = Some w"
| "run w (e # es) = (case ui_step w e of None \<Rightarrow> None | Some w' \<Rightarrow> run w' es)"


section \<open>The transformer on well-formed input\<close>

lemma add_column_wf: "add_column code (json_of_column c) = Inr (code @ column_line c)"
  by (simp add: add_column_def json_of_column_def column_line_def bind_def)

lemma forEach_add_column_wf:
  "forEach_list add_column (map json_of_column cs) code = Inr (code @ concat (map column_line cs))"
  by (induction cs arbitrary: code) (simp_all add: add_column_wf)

lemma add_table_wf: "add_table code (json_of_table t) = Inr (code @ entity_block t)"
  by (simp add: add_table_def json_of_table_def entity_block_def bind_def
      forEach_add_column_wf split: option.split)

lemma forEach_add_table_wf:
  "forEach_list add_table (map json_of_table ts) code = Inr (code @ concat (map entity_block ts))"
  by (induction ts arbitrary: code) (simp_all add: add_table_wf)

lemma add_relationship_wf:
  "add_relationship (json_of_table t) code (json_of_relationship r) =
     Inr (code @ relationship_line t r)"
  by (simp add: add_relationship_def json_of_table_def json_of_relationship_def
      relationship_line_def bind_def split: option.split)

lemma forEach_add_relationship_wf:
  "forEach_list (add_relationship (json_of_table t)) (map json_of_relationship rs) code =
     Inr (code @ concat (map (relationship_line t) rs))"
  by (induction rs arbitrary: code) (simp_all add: add_relationship_wf)

lemma add_relationships_wf:
  "add_relationships code (json_of_table t) = Inr (code @ relationship_lines t)"
proof (cases "table_relationships t")
  case None
  then show ?thesis
    by (simp add: add_relationships_def json_of_table_def relationship_lines_def bind_def)
next
  case (Some rs)
  have "get_prop (Some (json_of_table t)) ''relationships'' =
          Inr (Some (JArray (map json_of_relationship rs)))"
    using Some by (simp add: json_of_table_def)
  then show ?thesis
    using Some forEach_add_relationship_wf [of t rs code]
    by (simp add: add_relationships_def relationship_lines_def bind_def)
qed

lemma forEach_add_relationships_wf:
  "forEach_list add_relationships (map json_of_table ts) code =
     Inr (code @ concat (map relationship_lines ts))"
  by (induction ts arbitrary: code) (simp_all add: add_relationships_wf)

lemma generateMermaidERD_wf:
  "generateMermaidERD (response_of_design d) =
     Inr (''erDiagram\<newline>'' @ concat (map entity_block (design_tables d)) @
          concat (map relationship_lines (design_tables d)))"
  by (simp add: generateMermaidERD_def response_of_design_def json_of_design_def bind_def
      forEach_add_table_wf forEach_add_relationships_wf)

section \<open>The diagram transformer\<close>

text \<open>
  Claim C6. The transformer applied to the response whose recommendation is the single
  table \<^verbatim>\<open>Users\<close> with the single column \<^verbatim>\<open>id\<close> of type \<^verbatim>\<open>int\<close>, not nullable, and an empty
  sequence of relationships, returns exactly the header line, the entity block of \<^verbatim>\<open>Users\<close>
  with the line \<^verbatim>\<open>int id\<close> in it, no nullability marker and no relationship line. The
  recommendation is read from the member \<^verbatim>\<open>designRecommendations\<close> of the response body.
\<close>

theorem transform_users_example:
  "generateMermaidERD
     (Some (JObject [(''designRecommendations'',
        JObject [(''tables'', JArray [
          JObject [(''name'', JString ''Users''),
                   (''columns'', JArray [
                      JObject [(''name'', JString ''id''), (''type'', JString ''int''),
                               (''nullable'', JBool False)]]),
                   (''relationships'', JArray [])]])])]))
   = Inr ''erDiagram\<newline>    Users {\<newline>        int id\<newline>    }\<newline>''"
  by (simp add: generateMermaidERD_def add_table_def add_column_def add_relationships_def
      bind_def)

text \<open>
  Claim C7. For every well-formed recommendation the output is the header, then the entity
  blocks in the order of the tables, then the relationship lines, in the order of the
  tables and within a table in the order of its relationships; a relationship line is the
  target table, the constant \<^verbatim>\<open>}o--||\<close>, the table that declares the relationship and the
  constant label \<^verbatim>\<open>relates\<close>; a table whose relationships are absent or empty contributes
  no relationship line.
\<close>

theorem transform_order:
  "generateMermaidERD (response_of_design d) =
     Inr (''erDiagram\<newline>'' @ concat (map entity_block (design_tables d)) @
          concat (map relationship_lines (design_tables d)))
   \<and> (\<forall>t \<in> set (design_tables d).
        relationship_lines t =
          concat (map (\<lambda>r. ''    '' @ targetTable r @ '' }o--|| '' @ table_name t @ '' : relates\<newline>'')
                    (case table_relationships t of None \<Rightarrow> [] | Some rs \<Rightarrow> rs))
        \<and> (table_relationships t = None \<or> table_relationships t = Some [] \<longrightarrow>
             relationship_lines t = []))"
proof -
  have "relationship_lines t =
          concat (map (\<lambda>r. ''    '' @ targetTable r @ '' }o--|| '' @ table_name t @ '' : relates\<newline>'')
                    (case table_relationships t of None \<Rightarrow> [] | Some rs \<Rightarrow> rs))" for t
  proof -
    have "relationship_line t =
            (\<lambda>r. ''    '' @ targetTable r @ '' }o--|| '' @ table_name t @ '' : relates\<newline>'')"
      by (rule ext) (simp add: relationship_line_def)
    then show ?thesis
      by (simp add: relationship_lines_def split: option.split)
  qed
  moreover have "table_relationships t = None \<or> table_relationships t = Some [] \<longrightarrow>
      relationship_lines t = []" for t
    by (auto simp: relationship_lines_def)
  ultimately show ?thesis
    using generateMermaidERD_wf [of d] by blast
qed

theorem transform_order_witness:
  "generateMermaidERD (response_of_design
     \<lparr>design_tables =
        [\<lparr>table_name = ''Orders'',
          table_columns = [\<lparr>column_name = ''user_id'', column_type = ''int'', column_nullable = True\<rparr>],
          table_relationships = Some [\<lparr>targetTable = ''Users''\<rparr>]\<rparr>,
         \<lparr>table_name = ''Users'', table_columns = [], table_relationships = None\<rparr>]\<rparr>)
   = Inr (''erDiagram\<newline>    Orders {\<newline>        int user_id\<newline>    }\<newline>    Users {\<newline>    }\<newline>'' @
          ''    Users }o--|| Orders : relates\<newline>'')
   \<and> relationship_lines \<lparr>table_name = ''Users'', table_columns = [], table_relationships = None\<rparr> = []"
  using transform_order [of "\<lparr>design_tables =
        [\<lparr>table_name = ''Orders'',
          table_columns = [\<lparr>column_name = ''user_id'', column_type = ''int'', column_nullable = True\<rparr>],
          table_relationships = Some [\<lparr>targetTable = ''Users''\<rparr>]\<rparr>,
         \<lparr>table_name = ''Users'', table_columns = [], table_relationships = None\<rparr>]\<rparr>"]
  by (simp add: entity_block_def column_line_def)

text \<open>
  Claim C8. On a recommendation with no table the transformer returns the header line and
  nothing else; a table with no column still has its entity block, which is empty, at its
  place among the blocks.
\<close>

theorem transform_empty:
  "generateMermaidERD (response_of_design \<lparr>design_tables = []\<rparr>) = Inr ''erDiagram\<newline>''
   \<and> (table_columns t = [] \<longrightarrow>
        generateMermaidERD (response_of_design \<lparr>design_tables = before @ [t] @ after\<rparr>) =
          Inr (''erDiagram\<newline>'' @ concat (map entity_block before) @
               (''    '' @ table_name t @ '' {\<newline>    }\<newline>'') @
               concat (map entity_block after) @
               concat (map relationship_lines (before @ [t] @ after))))"
proof -
  have "entity_block t = ''    '' @ table_name t @ '' {\<newline>    }\<newline>''" if "table_columns t = []"
    using that by (simp add: entity_block_def)
  then show ?thesis
    by (simp add: generateMermaidERD_wf)
qed

theorem transform_empty_witness:
  "generateMermaidERD (response_of_design \<lparr>design_tables = []\<rparr>) = Inr ''erDiagram\<newline>''
   \<and> generateMermaidERD (response_of_design
        \<lparr>design_tables = [\<lparr>table_name = ''Audit'', table_columns = [], table_relationships = Some []\<rparr>]\<rparr>)
     = Inr ''erDiagram\<newline>    Audit {\<newline>    }\<newline>''"
  using transform_empty [of "\<lparr>table_name = ''Audit'', table_columns = [], table_relationships = Some []\<rparr>" "[]" "[]"]
  by (simp add: relationship_lines_def)

section \<open>The handlers, one by one\<close>

lemma handleLogin_start_fields:
  "isLoggedIn (fst (handleLogin_start s)) = isLoggedIn s"
  "token (fst (handleLogin_start s)) = token s"
  "error (fst (handleLogin_start s)) = None"
  "isLoggingIn (fst (handleLogin_start s)) = True"
  "isGeneratingDesign (fst (handleLogin_start s)) = isGeneratingDesign s"
  "designResult (fst (handleLogin_start s)) = designResult s"
  "databaseSchema (fst (handleLogin_start s)) = databaseSchema s"
  by (simp_all add: handleLogin_start_def)

lemma handleLogin_finish_failed:
  assumes "r = Rejected \<or> r = Resolved None \<or> r = Resolved (Some JNull)"
  shows "handleLogin_finish r s =
           s\<lparr>error := Some login_failed_message, isLoggedIn := False, isLoggingIn := False\<rparr>"
  using assms by (auto simp: handleLogin_finish_def handleLogin_catch_def)



lemma handleGenerateDesign_start_issued:
  assumes "toString (token s) = Inr tok"
  shows "handleGenerateDesign_start s =
           (s\<lparr>error := None, isGeneratingDesign := True\<rparr>,
            Some \<lparr>sourceType = input_value (sourceTypeRef s),
                  connectionString = input_value (connectionStringRef s),
                  sourceConfig =
                    \<lparr>path = (if input_value (sourceTypeRef s) = ''csv''
                             then Some (input_value (connectionStringRef s)) else None),
                     url = (if input_value (sourceTypeRef s) = ''api''
                            then Some (input_value (connectionStringRef s)) else None)\<rparr>,
                  authorization = ''Bearer '' @ tok\<rparr>)"
  using assms by (simp add: handleGenerateDesign_start_def Let_def)

lemma handleGenerateDesign_start_thrown:
  assumes "toString (token s) = Inl e"
  shows "handleGenerateDesign_start s =
           (s\<lparr>error := Some generate_failed_message, isGeneratingDesign := False\<rparr>, None)"
  using assms by (simp add: handleGenerateDesign_start_def handleGenerateDesign_catch_def Let_def)

lemma handleGenerateDesign_start_cases:
  "(\<exists>tok. toString (token s) = Inr tok) \<or> toString (token s) = Inl TypeError"
  by (cases "toString (token s)") (auto intro: js_error.exhaust)

lemma handleGenerateDesign_finish_fields:
  "isLoggedIn (handleGenerateDesign_finish r s) = isLoggedIn s"
  "token (handleGenerateDesign_finish r s) = token s"
  "isLoggingIn (handleGenerateDesign_finish r s) = isLoggingIn s"
  "isGeneratingDesign (handleGenerateDesign_finish r s) = False"
  by (simp_all add: handleGenerateDesign_finish_def handleGenerateDesign_catch_def Let_def
      split: response.split sum.split)

lemma handleGenerateDesign_finish_rejected:
  "handleGenerateDesign_finish Rejected s =
     s\<lparr>error := Some generate_failed_message, isGeneratingDesign := False\<rparr>"
  by (simp add: handleGenerateDesign_finish_def handleGenerateDesign_catch_def)

lemma handleGenerateDesign_finish_fault:
  assumes "generateMermaidERD designData = Inl e"
  shows "handleGenerateDesign_finish (Resolved designData) s =
           s\<lparr>designResult := Some designData, error := Some generate_failed_message,
             isGeneratingDesign := False\<rparr>"
  using assms
  by (simp add: handleGenerateDesign_finish_def handleGenerateDesign_catch_def Let_def)

lemma handleGenerateDesign_finish_success:
  assumes "generateMermaidERD designData = Inr mermaidSchema"
  shows "handleGenerateDesign_finish (Resolved designData) s =
           s\<lparr>designResult := Some designData, databaseSchema := Some mermaidSchema,
             isGeneratingDesign := False\<rparr>"
  using assms by (simp add: handleGenerateDesign_finish_def Let_def)



lemma clear_input_idem: "clear_input (clear_input r) = clear_input r"
  by (simp add: clear_input_def split: option.split)

lemma handleLogout_idempotent: "handleLogout (handleLogout s) = handleLogout s"
  by (simp add: handleLogout_def clear_input_idem)

section \<open>Runs through the controls\<close>

lemma design_buttons_enabled_iff:
  "design_buttons_enabled s = (isLoggedIn s \<and> \<not> isGeneratingDesign s)"
  by (simp add: design_buttons_enabled_def render_def)

lemma login_form_enabled_iff:
  "login_form_enabled s = (\<not> isLoggedIn s \<and> \<not> isLoggingIn s)"
  by (simp add: login_form_enabled_def render_def)

lemma handleGenerateDesign_from_issued:
  assumes "toString (token c) = Inr tok"
  shows "handleGenerateDesign_from c s =
           (s\<lparr>error := None, isGeneratingDesign := True\<rparr>,
            Some \<lparr>sourceType = input_value (sourceTypeRef s),
                  connectionString = input_value (connectionStringRef s),
                  sourceConfig =
                    \<lparr>path = (if input_value (sourceTypeRef s) = ''csv''
                             then Some (input_value (connectionStringRef s)) else None),
                     url = (if input_value (sourceTypeRef s) = ''api''
                            then Some (input_value (connectionStringRef s)) else None)\<rparr>,
                  authorization = ''Bearer '' @ tok\<rparr>)"
proof -
  from assms have "toString (token (s\<lparr>token := token c\<rparr>)) = Inr tok"
    by simp
  from handleGenerateDesign_start_issued [OF this] show ?thesis
    by (simp add: handleGenerateDesign_from_def)
qed

lemma handleGenerateDesign_from_thrown:
  assumes "toString (token c) = Inl e"
  shows "handleGenerateDesign_from c s =
           (s\<lparr>error := Some generate_failed_message, isGeneratingDesign := False\<rparr>, None)"
proof -
  from assms have "toString (token (s\<lparr>token := token c\<rparr>)) = Inl e"
    by simp
  from handleGenerateDesign_start_thrown [OF this] show ?thesis
    by (simp add: handleGenerateDesign_from_def)
qed


lemma handleGenerateDesign_from_current:
  "handleGenerateDesign_from s s = handleGenerateDesign_start s"
  using handleGenerateDesign_start_cases [of s]
  by (auto simp: handleGenerateDesign_from_issued handleGenerateDesign_from_thrown
      handleGenerateDesign_start_issued handleGenerateDesign_start_thrown)













section \<open>The workflow controller\<close>

text \<open>
  Claim C1, as the code has it, in two runs through the controls. In the first the login
  is answered with the body \<^verbatim>\<open>{}\<close>: the user is logged in with no token, and the generate
  button posts a request whose header is \<^verbatim>\<open>Bearer undefined\<close>. In the second the user logs
  in and out again, \<^verbatim>\<open>isLoggedIn\<close> is false, and the generate button of the design interface
  that is still leaving posts a request, with the token of the session that was ended.
\<close>

theorem generate_unauthenticated_counterexample:
  "map_option network
     (run init_world
        [SubmitLogin ''u'' ''p'',
         LoginResponse (Resolved (Some (JObject []))),
         ClickGenerate ''csv'' ''/data/x.csv''])
   = Some [LoginCall \<lparr>username = ''u'', password = ''p''\<rparr>,
           GenerateCall \<lparr>sourceType = ''csv'', connectionString = ''/data/x.csv'',
                         sourceConfig = \<lparr>path = Some ''/data/x.csv'', url = None\<rparr>,
                         authorization = ''Bearer undefined''\<rparr>]
   \<and>
   map_option (\<lambda>w. (isLoggedIn (app w), token (app w), network w))
     (run init_world
        [SubmitLogin ''u'' ''p'',
         LoginResponse (Resolved (Some (JObject [(''token'', JString ''t'')]))),
         ClickLogout [] []])
   = Some (False, Some (JString []), [LoginCall \<lparr>username = ''u'', password = ''p''\<rparr>])
   \<and>
   map_option (\<lambda>w. (isLoggedIn (app w), token (app w), network w))
     (run init_world
        [SubmitLogin ''u'' ''p'',
         LoginResponse (Resolved (Some (JObject [(''token'', JString ''t'')]))),
         ClickLogout [] [],
         ClickGenerate ''csv'' ''/data/x.csv''])
   = Some (False, Some (JString []),
           [LoginCall \<lparr>username = ''u'', password = ''p''\<rparr>,
            GenerateCall \<lparr>sourceType = ''csv'', connectionString = ''/data/x.csv'',
                          sourceConfig = \<lparr>path = Some ''/data/x.csv'', url = None\<rparr>,
                          authorization = ''Bearer t''\<rparr>])"
  by (simp add: init_world_def init_state_def login_form_enabled_iff
      design_buttons_enabled_iff design_view_def handleLogin_start_def handleLogin_finish_def
      handleGenerateDesign_from_def handleGenerateDesign_start_def handleLogout_def
      login_mounted_def design_mounted_def source_type_options_def input_value_def
      clear_input_def Let_def)

text \<open>
  Claim C1, amended. \<^verbatim>\<open>handleGenerateDesign\<close> performs no check of the session and rejects
  nothing: whether it posts, and what it posts, does not depend on \<^verbatim>\<open>isLoggedIn\<close>. It posts
  whenever the token it holds converts to a string, with the header \<^verbatim>\<open>Bearer\<close> followed by
  that string, be it empty, \<^verbatim>\<open>undefined\<close> or the token of a session that has ended; only a
  token that cannot be converted to a string keeps the request from being posted.
\<close>

theorem generate_ignores_session:
  "snd (handleGenerateDesign_start (s\<lparr>isLoggedIn := b\<rparr>)) = snd (handleGenerateDesign_start s)
   \<and> (toString (token s) = Inr tok \<longrightarrow>
        (\<exists>req. snd (handleGenerateDesign_start s) = Some req \<and>
               authorization req = ''Bearer '' @ tok))
   \<and> (toString (token s) = Inl e \<longrightarrow> snd (handleGenerateDesign_start s) = None)"
proof -
  have 1: "snd (handleGenerateDesign_start (s\<lparr>isLoggedIn := b\<rparr>)) =
           snd (handleGenerateDesign_start s)"
    by (simp add: handleGenerateDesign_start_def Let_def split: sum.split)
  have 2: "\<exists>req. snd (handleGenerateDesign_start s) = Some req \<and>
             authorization req = ''Bearer '' @ tok" if "toString (token s) = Inr tok"
    using handleGenerateDesign_start_issued [OF that] by simp
  have 3: "snd (handleGenerateDesign_start s) = None" if "toString (token s) = Inl e"
    using handleGenerateDesign_start_thrown [OF that] by simp
  from 1 2 3 show ?thesis
    by blast
qed

theorem generate_ignores_session_witness:
  "snd (handleGenerateDesign_start
          (handleLogout (design_mounted ''csv'' ''/data/x.csv''
             (init_state\<lparr>isLoggedIn := True, token := Some (JString ''t'')\<rparr>))
           \<lparr>token := Some (JString ''t''), isLoggedIn := True\<rparr>)) =
     snd (handleGenerateDesign_start
          (handleLogout (design_mounted ''csv'' ''/data/x.csv''
             (init_state\<lparr>isLoggedIn := True, token := Some (JString ''t'')\<rparr>))
           \<lparr>token := Some (JString ''t'')\<rparr>))
   \<and> (\<exists>req. snd (handleGenerateDesign_start
               (design_mounted ''csv'' ''/data/x.csv''
                  (init_state\<lparr>isLoggedIn := True, token := Some (JString ''t'')\<rparr>))) = Some req \<and>
             authorization req = ''Bearer t'')
   \<and> (\<exists>req. snd (handleGenerateDesign_start
               (design_mounted ''csv'' ''/data/x.csv''
                  (init_state\<lparr>isLoggedIn := True, token := None\<rparr>))) = Some req \<and>
             authorization req = ''Bearer undefined'')
   \<and> snd (handleGenerateDesign_start
             (design_mounted ''csv'' ''/data/x.csv''
                (init_state\<lparr>isLoggedIn := True,
                   token := Some (JObject [(''toString'', JNull)])\<rparr>))) = None"
proof -
  let ?out = "handleLogout (design_mounted ''csv'' ''/data/x.csv''
                (init_state\<lparr>isLoggedIn := True, token := Some (JString ''t'')\<rparr>))
              \<lparr>token := Some (JString ''t'')\<rparr>"
  let ?s1 = "design_mounted ''csv'' ''/data/x.csv''
               (init_state\<lparr>isLoggedIn := True, token := Some (JString ''t'')\<rparr>)"
  let ?s2 = "design_mounted ''csv'' ''/data/x.csv''
               (init_state\<lparr>isLoggedIn := True, token := None\<rparr>)"
  let ?s3 = "design_mounted ''csv'' ''/data/x.csv''
               (init_state\<lparr>isLoggedIn := True,
                  token := Some (JObject [(''toString'', JNull)])\<rparr>)"
  have a: "toString (token ?s1) = Inr ''t''"
    by (simp add: design_mounted_def)
  have b: "toString (token ?s2) = Inr ''undefined''"
    by (simp add: design_mounted_def)
  have c: "toString (token ?s3) = Inl TypeError"
    by (simp add: design_mounted_def)
  from generate_ignores_session [where s = ?out and b = True]
  have 1: "snd (handleGenerateDesign_start (?out\<lparr>isLoggedIn := True\<rparr>)) =
             snd (handleGenerateDesign_start ?out)"
    by simp
  from generate_ignores_session [where s = ?s1 and tok = "''t''"] a
  have 2: "\<exists>req. snd (handleGenerateDesign_start ?s1) = Some req \<and>
              authorization req = ''Bearer t''"
    by simp
  from generate_ignores_session [where s = ?s2 and tok = "''undefined''"] b
  have 3: "\<exists>req. snd (handleGenerateDesign_start ?s2) = Some req \<and>
              authorization req = ''Bearer undefined''"
    by simp
  from generate_ignores_session [where s = ?s3 and e = TypeError] c
  have 4: "snd (handleGenerateDesign_start ?s3) = None"
    by simp
  from 1 2 3 4 show ?thesis
    by blast
qed




text \<open>
  Claim C5. The request that is posted carries the source type and connection string read
  from the form; its \<^verbatim>\<open>sourceConfig\<close> has \<^verbatim>\<open>path\<close> equal to the connection string when the
  source type is \<^verbatim>\<open>csv\<close> and undefined otherwise, and \<^verbatim>\<open>url\<close> equal to the connection string
  when the source type is \<^verbatim>\<open>api\<close> and undefined otherwise; in the serialised body the
  undefined members are absent, so for any other source type \<^verbatim>\<open>sourceConfig\<close> is the empty
  object.
\<close>

theorem sourceConfig_derived:
  assumes "snd (handleGenerateDesign_start s) = Some req"
  shows "sourceType req = input_value (sourceTypeRef s) \<and>
         connectionString req = input_value (connectionStringRef s) \<and>
         path (sourceConfig req) =
           (if sourceType req = ''csv'' then Some (connectionString req) else None) \<and>
         url (sourceConfig req) =
           (if sourceType req = ''api'' then Some (connectionString req) else None) \<and>
         body_json req =
           JObject [(''sourceType'', JString (sourceType req)),
                    (''connectionString'', JString (connectionString req)),
                    (''sourceConfig'',
                       JObject (if sourceType req = ''csv''
                                then [(''path'', JString (connectionString req))]
                                else if sourceType req = ''api''
                                then [(''url'', JString (connectionString req))]
                                else []))]"
proof -
  from handleGenerateDesign_start_cases [of s] assms
  obtain tok where "toString (token s) = Inr tok"
    by (auto simp: handleGenerateDesign_start_thrown)
  from handleGenerateDesign_start_issued [OF this] assms show ?thesis
    by (auto simp: body_json_def optional_member_def)
qed

theorem sourceConfig_derived_witness:
  "\<exists>req. snd (handleGenerateDesign_start
            (design_mounted ''csv'' ''/data/x.csv''
               (init_state\<lparr>isLoggedIn := True, token := Some (JString ''t'')\<rparr>))) = Some req
     \<and> path (sourceConfig req) = Some ''/data/x.csv''
     \<and> url (sourceConfig req) = None
     \<and> body_json req =
         JObject [(''sourceType'', JString ''csv''),
                  (''connectionString'', JString ''/data/x.csv''),
                  (''sourceConfig'', JObject [(''path'', JString ''/data/x.csv'')])]"
proof -
  let ?s = "design_mounted ''csv'' ''/data/x.csv''
              (init_state\<lparr>isLoggedIn := True, token := Some (JString ''t'')\<rparr>)"
  have "toString (token ?s) = Inr ''t''"
    by (simp add: design_mounted_def)
  from handleGenerateDesign_start_issued [OF this]
  obtain req where r: "snd (handleGenerateDesign_start ?s) = Some req"
    by simp
  have v: "input_value (sourceTypeRef ?s) = ''csv''"
    "input_value (connectionStringRef ?s) = ''/data/x.csv''"
    by (simp_all add: design_mounted_def input_value_def)
  from sourceConfig_derived [OF r] r v show ?thesis
    by auto
qed

text \<open>
  Claim C9, as the code has it, in a run through the controls. A login answered with
  status 2xx and the malformed body \<^verbatim>\<open>{}\<close>, which carries no token, is not treated as a
  failure: \<^verbatim>\<open>isLoggedIn\<close> becomes true, the token is \<^verbatim>\<open>undefined\<close>, the design interface is
  rendered and no error message is shown.
\<close>

theorem login_without_token_counterexample:
  "map_option (\<lambda>w. (isLoggedIn (app w), token (app w), error (app w), render (app w)))
     (run init_world
        [SubmitLogin ''u'' ''p'',
         LoginResponse (Resolved (Some (JObject [])))])
   = Some (True, None, None, DesignInterface None False None)"
  by (simp add: init_world_def init_state_def login_form_enabled_iff handleLogin_start_def
      handleLogin_finish_def login_mounted_def input_value_def render_def shown_def)

text \<open>
  Claim C9, amended. The controller takes a login attempt as failed when the request is
  rejected (no answer, or a status that is not 2xx) or when the body of the answer is
  \<^verbatim>\<open>null\<close> or missing: then \<^verbatim>\<open>isLoggedIn\<close> is false, the token is the one held before (none
  is stored), and the login form is rendered with the failure message on it and its
  controls enabled again. It does not look into any other body: an answer with status 2xx
  and a body that is not \<^verbatim>\<open>null\<close> logs the user in, whatever the body holds, and stores
  its \<^verbatim>\<open>token\<close> member, which is \<^verbatim>\<open>undefined\<close> when the body has none; no error is set.
\<close>

theorem login_outcome:
  "(r = Rejected \<or> r = Resolved None \<or> r = Resolved (Some JNull) \<longrightarrow>
      \<not> isLoggedIn (handleLogin_finish r s) \<and>
      token (handleLogin_finish r s) = token s \<and>
      error (handleLogin_finish r s) = Some login_failed_message \<and>
      render (handleLogin_finish r s) = LoginForm (Some login_failed_message) False)
   \<and> (r = Resolved (Some body) \<and> body \<noteq> JNull \<longrightarrow>
        isLoggedIn (handleLogin_finish r s) \<and>
        get_prop (Some body) ''token'' = Inr (token (handleLogin_finish r s)) \<and>
        error (handleLogin_finish r s) = error s \<and>
        \<not> isLoggingIn (handleLogin_finish r s))"
proof -
  have 1: "\<not> isLoggedIn (handleLogin_finish r s) \<and>
      token (handleLogin_finish r s) = token s \<and>
      error (handleLogin_finish r s) = Some login_failed_message \<and>
      render (handleLogin_finish r s) = LoginForm (Some login_failed_message) False"
    if "r = Rejected \<or> r = Resolved None \<or> r = Resolved (Some JNull)"
    by (simp add: handleLogin_finish_failed [OF that] render_def shown_def
        login_failed_message_def)
  have 2: "isLoggedIn (handleLogin_finish r s) \<and>
        get_prop (Some body) ''token'' = Inr (token (handleLogin_finish r s)) \<and>
        error (handleLogin_finish r s) = error s \<and>
        \<not> isLoggingIn (handleLogin_finish r s)"
    if "r = Resolved (Some body)" and "body \<noteq> JNull"
    using that by (cases body) (simp_all add: handleLogin_finish_def)
  from 1 2 show ?thesis
    by blast
qed

theorem login_outcome_witness:
  "(\<exists>w. run init_world [SubmitLogin ''u'' ''wrong'', LoginResponse Rejected] = Some w
      \<and> \<not> isLoggedIn (app w) \<and> token (app w) = Some (JString [])
      \<and> render (app w) = LoginForm (Some ''Login failed. Please check your credentials.'') False)
   \<and> isLoggedIn (handleLogin_finish (Resolved (Some (JString ''plain''))) init_state)
   \<and> token (handleLogin_finish (Resolved (Some (JString ''plain''))) init_state) = None"
proof -
  let ?s = "fst (handleLogin_start (login_mounted ''u'' ''wrong'' init_state))"
  have r: "run init_world [SubmitLogin ''u'' ''wrong'', LoginResponse Rejected] =
             Some \<lparr>app = handleLogin_finish Rejected ?s, exiting = None,
                   login_in_flight = None, generate_in_flight = [],
                   network = [LoginCall \<lparr>username = ''u'', password = ''wrong''\<rparr>]\<rparr>"
    by (simp add: init_world_def init_state_def login_form_enabled_iff handleLogin_start_def
        login_mounted_def input_value_def)
  have t: "token ?s = Some (JString [])"
    by (simp add: handleLogin_start_def login_mounted_def init_state_def)
  from login_outcome [where r = Rejected and s = ?s] r t
  have 1: "\<exists>w. run init_world [SubmitLogin ''u'' ''wrong'', LoginResponse Rejected] = Some w
      \<and> \<not> isLoggedIn (app w) \<and> token (app w) = Some (JString [])
      \<and> render (app w) = LoginForm (Some ''Login failed. Please check your credentials.'') False"
    by (simp add: login_failed_message_def)
  from login_outcome [where r = "Resolved (Some (JString ''plain''))" and s = init_state
      and body = "JString ''plain''"]
  have 2: "isLoggedIn (handleLogin_finish (Resolved (Some (JString ''plain''))) init_state)"
    "token (handleLogin_finish (Resolved (Some (JString ''plain''))) init_state) = None"
    by simp_all
  from 1 2 show ?thesis
    by blast
qed

text \<open>
  Claim C10. There is one error slot. Submitting a login clears it; posting a generation
  request clears it; whoever wrote the message that was there. The screen shows at most
  one error message, and none right after a request was submitted.
\<close>

theorem submit_clears_error:
  "error (fst (handleLogin_start s)) = None
   \<and> error_messages (render (fst (handleLogin_start s))) = []
   \<and> (snd (handleGenerateDesign_start s) \<noteq> None \<longrightarrow>
        error (fst (handleGenerateDesign_start s)) = None \<and>
        error_messages (render (fst (handleGenerateDesign_start s))) = [])
   \<and> length (error_messages (render s)) \<le> 1"
proof -
  have 1: "error (fst (handleLogin_start s)) = None"
    by (simp add: handleLogin_start_def)
  have 2: "error (fst (handleGenerateDesign_start s)) = None"
    if "snd (handleGenerateDesign_start s) \<noteq> None"
  proof -
    from handleGenerateDesign_start_cases [of s] that
    obtain tok where "toString (token s) = Inr tok"
      by (auto simp: handleGenerateDesign_start_thrown)
    from handleGenerateDesign_start_issued [OF this] show ?thesis
      by simp
  qed
  have 3: "error_messages (render t) = []" if "error t = None" for t
    using that by (simp add: error_messages_def render_def shown_def)
  have 4: "length (error_messages (render s)) \<le> 1"
    by (simp add: error_messages_def split: option.split)
  from 1 2 3 4 show ?thesis
    by blast
qed

theorem submit_clears_error_witness:
  "error (handleGenerateDesign_finish Rejected
            (init_state\<lparr>isLoggedIn := True, token := Some (JString ''t'')\<rparr>))
     = Some ''Failed to generate database design.''
   \<and> error (fst (handleLogin_start (handleLogout (handleGenerateDesign_finish Rejected
        (init_state\<lparr>isLoggedIn := True, token := Some (JString ''t'')\<rparr>))))) = None
   \<and> snd (handleGenerateDesign_start (handleGenerateDesign_finish Rejected
        (init_state\<lparr>isLoggedIn := True, token := Some (JString ''t'')\<rparr>))) \<noteq> None
   \<and> error (fst (handleGenerateDesign_start (handleGenerateDesign_finish Rejected
        (init_state\<lparr>isLoggedIn := True, token := Some (JString ''t'')\<rparr>)))) = None"
proof -
  let ?s = "handleGenerateDesign_finish Rejected
              (init_state\<lparr>isLoggedIn := True, token := Some (JString ''t'')\<rparr>)"
  have e: "error ?s = Some ''Failed to generate database design.''"
    by (simp add: handleGenerateDesign_finish_rejected generate_failed_message_def)
  have "toString (token ?s) = Inr ''t''"
    by (simp add: handleGenerateDesign_finish_fields)
  from handleGenerateDesign_start_issued [OF this]
  have i: "snd (handleGenerateDesign_start ?s) \<noteq> None"
    by simp
  from submit_clears_error [of "handleLogout ?s"] submit_clears_error [of ?s] e i
  show ?thesis
    by simp
qed

section \<open>Where the code departs from its specification\<close>

text \<open>
  Claim C2. \<^verbatim>\<open>handleLogout\<close> resets the session, the results and the fields, posts nothing
  and is idempotent (\<open>handleLogout_resets\<close>, \<open>logout_no_network_call\<close>,
  \<open>handleLogout_idempotent\<close>); but it never calls \<^verbatim>\<open>setError\<close>
  (\<open>handleLogout_keeps_status\<close>): after a generation has failed, a logout leaves the message
  of that failure on the login form.
\<close>

theorem logout_leaves_error:
  "map_option (\<lambda>w. (render (app w), error (app w), network w))
     (run init_world
        [SubmitLogin ''u'' ''p'',
         LoginResponse (Resolved (Some (JObject [(''token'', JString ''t'')]))),
         ClickGenerate ''csv'' ''/data/x.csv'',
         GenerateResponse Rejected,
         ClickLogout ''csv'' ''/data/x.csv''])
   = Some (LoginForm (Some ''Failed to generate database design.'') False,
           Some ''Failed to generate database design.'',
           [LoginCall \<lparr>username = ''u'', password = ''p''\<rparr>,
            GenerateCall \<lparr>sourceType = ''csv'', connectionString = ''/data/x.csv'',
                          sourceConfig = \<lparr>path = Some ''/data/x.csv'', url = None\<rparr>,
                          authorization = ''Bearer t''\<rparr>])"
  by (simp add: init_world_def init_state_def login_form_enabled_iff
      design_buttons_enabled_iff design_view_def handleLogin_start_def handleLogin_finish_def
      handleGenerateDesign_from_def handleGenerateDesign_start_def
      handleGenerateDesign_finish_rejected handleLogout_def
      login_mounted_def design_mounted_def source_type_options_def input_value_def
      clear_input_def render_def shown_def generate_failed_message_def Let_def)

text \<open>
  Claim C3. When the request is rejected the stored result and diagram stay as they were
  (\<open>handleGenerateDesign_finish_rejected\<close>). When the answer arrives but the transformer
  throws on it, the diagram stays and the failure message is set, but \<^verbatim>\<open>setDesignResult\<close> has
  already run (\<open>handleGenerateDesign_finish_fault\<close>): the stored result of the earlier,
  successful generation is overwritten by the malformed body \<^verbatim>\<open>{}\<close>.
\<close>

theorem fault_overwrites_result:
  "map_option (\<lambda>w. (designResult (app w), databaseSchema (app w), error (app w)))
     (run init_world
        [SubmitLogin ''u'' ''p'',
         LoginResponse (Resolved (Some (JObject [(''token'', JString ''t'')]))),
         ClickGenerate ''csv'' ''/data/x.csv'',
         GenerateResponse (Resolved (response_of_design \<lparr>design_tables = []\<rparr>))])
   = Some (Some (response_of_design \<lparr>design_tables = []\<rparr>), Some ''erDiagram\<newline>'', None)
   \<and>
   map_option (\<lambda>w. (designResult (app w), databaseSchema (app w), error (app w)))
     (run init_world
        [SubmitLogin ''u'' ''p'',
         LoginResponse (Resolved (Some (JObject [(''token'', JString ''t'')]))),
         ClickGenerate ''csv'' ''/data/x.csv'',
         GenerateResponse (Resolved (response_of_design \<lparr>design_tables = []\<rparr>)),
         ClickGenerate ''csv'' ''/data/x.csv'',
         GenerateResponse (Resolved (Some (JObject [])))])
   = Some (Some (Some (JObject [])), Some ''erDiagram\<newline>'',
           Some ''Failed to generate database design.'')"
proof -
  have f: "generateMermaidERD (Some (JObject [])) = Inl TypeError"
    by (simp add: generateMermaidERD_def bind_def)
  show ?thesis
    by (simp add: init_world_def init_state_def login_form_enabled_iff
        design_buttons_enabled_iff design_view_def handleLogin_start_def
        handleLogin_finish_def handleGenerateDesign_from_def
        handleGenerateDesign_start_def handleGenerateDesign_finish_success
        handleGenerateDesign_finish_fault [OF f] generateMermaidERD_wf
        login_mounted_def design_mounted_def source_type_options_def input_value_def
        generate_failed_message_def Let_def)
qed

end
